theory Spec2Isabelle
  imports Complex_Main "HOL-Library.Sublist"
begin

section \<open>BalderJS: hit-testing, sprite timing, output checking and the dev server\<close>

text \<open>
  The development follows \<^verbatim>\<open>src/balder.ts\<close> and \<^verbatim>\<open>server.js\<close>.  A TypeScript
  \<^verbatim>\<open>number\<close> that holds a coordinate, a size or a time is a real here; NaN and the
  infinities of IEEE arithmetic are not represented.  The definitions named after the
  source's functions compute exactly.  Where the truth of a statement depends on how
  the source's double precision arithmetic rounds, the function has a counterpart
  with the suffix \<open>_fl\<close> that applies a rounding \<open>fl\<close> to the result of each
  arithmetic operation of the source; the statement is then made for every rounding,
  or for the rounding \<open>binary64\<close> of the machine on numbers on which it is proved to
  be exact.  Where the source divides, the statements say which divisors they cover.
  Counts (rows, columns, array indices) are natural numbers.
\<close>

subsection \<open>Arrays and numbers\<close>

text \<open>
  Reading a JavaScript array at an index outside it yields \<^verbatim>\<open>undefined\<close>, written
  \<open>None\<close> here.
\<close>

definition js_nth :: "'a list \<Rightarrow> nat \<Rightarrow> 'a option" where
  "js_nth xs i = (if i < length xs then Some (xs ! i) else None)"

text \<open>
  \<^verbatim>\<open>value.some((v, i) => p(v, i))\<close>: the callback sees each element with its index.
\<close>

definition js_some :: "('a \<Rightarrow> nat \<Rightarrow> bool) \<Rightarrow> 'a list \<Rightarrow> bool" where
  "js_some p xs = list_ex (\<lambda>(i, v). p v i) (enumerate 0 xs)"

text \<open>
  \<^verbatim>\<open>Math.floor(a / b)\<close>.  For \<open>b = 0\<close> the quotient is an infinity or NaN and so
  is its floor: no integer, written \<open>None\<close>.
\<close>

definition js_floor_div :: "real \<Rightarrow> real \<Rightarrow> int option" where
  "js_floor_div a b = (if b = 0 then None else Some \<lfloor>a / b\<rfloor>)"

text \<open>The same with the rounding \<open>fl\<close> of the quotient, which the source takes the floor of.\<close>

definition js_floor_div_fl :: "(real \<Rightarrow> real) \<Rightarrow> real \<Rightarrow> real \<Rightarrow> int option" where
  "js_floor_div_fl fl a b = (if b = 0 then None else Some \<lfloor>fl (a / b)\<rfloor>)"

text \<open>
  \<^verbatim>\<open>xs[i]\<close> for a computed index: \<^verbatim>\<open>undefined\<close> when the index is no integer,
  is negative or is not below the length.
\<close>

definition js_index :: "'a list \<Rightarrow> int option \<Rightarrow> 'a option" where
  "js_index xs i =
     (case i of None \<Rightarrow> None
      | Some k \<Rightarrow> if 0 \<le> k \<and> k < int (length xs) then Some (xs ! nat k) else None)"

datatype js_error = TypeError

text \<open>
  A whole number of magnitude at most \<open>2\<^sup>2\<^sup>0\<close>.  Sums, differences and products of
  two such numbers are whole numbers below \<open>2\<^sup>5\<^sup>3\<close>, which double precision
  arithmetic computes exactly; and the floor of the rounded quotient of two of them is
  the floor of their exact quotient, the quotient being either whole or further from
  the next whole number than rounding can move it (both are proved below).
\<close>

definition whole :: "real \<Rightarrow> bool" where
  "whole v \<longleftrightarrow> v \<in> \<int> \<and> \<bar>v\<bar> \<le> 2 ^ 20"

text \<open>
  The rounding of double precision arithmetic: the double nearest to the exact result
  \<open>v\<close>, the one with the even significand when two are equally near.  The doubles
  around \<open>v\<close> are the whole multiples of \<open>u = 2\<^sup>e\<^sup>-\<^sup>5\<^sup>2\<close> for the exponent \<open>e\<close> of
  \<open>v\<close>, which is never taken below \<open>- 1022\<close> (the subnormal numbers).  Beyond the
  largest double the machine returns an infinity, which is not a number here: the
  function is the machine's rounding for results of magnitude below \<open>2\<^sup>1\<^sup>0\<^sup>2\<^sup>4\<close>.
\<close>

definition round_half_even :: "real \<Rightarrow> int" where
  "round_half_even q =
     (let n = \<lfloor>q\<rfloor>; r = q - of_int n
      in if r < 1 / 2 \<or> (r = 1 / 2 \<and> even n) then n else n + 1)"

definition binary64 :: "real \<Rightarrow> real" where
  "binary64 v =
     (if v = 0 then 0
      else (let e = max (- 1022) \<lfloor>log 2 \<bar>v\<bar>\<rfloor>;
                u = 2 powr (of_int e - 52)
            in of_int (round_half_even (v / u)) * u))"

subsection \<open>Hitbox\<close>

text \<open>
  \<^verbatim>\<open>class Hitbox { constructor(public x, public y, public width, public height) }\<close>
\<close>

record Hitbox =
  hb_x :: real
  hb_y :: real
  hb_width :: real
  hb_height :: real

text \<open>
  \<^verbatim>\<open>intersects(other) { return this.x + this.width > other.x && this.x < other.x + other.width
      && this.y + this.height > other.y && this.y < other.y + other.height }\<close>
\<close>

definition intersects :: "Hitbox \<Rightarrow> Hitbox \<Rightarrow> bool" where
  "intersects this other \<longleftrightarrow>
     hb_x this + hb_width this > hb_x other \<and>
     hb_x this < hb_x other + hb_width other \<and>
     hb_y this + hb_height this > hb_y other \<and>
     hb_y this < hb_y other + hb_height other"

text \<open>
  \<^verbatim>\<open>contains(x, y) { return this.x + this.width > x && this.x <= x
      && this.y + this.height > y && this.y <= y }\<close>
\<close>

definition contains :: "Hitbox \<Rightarrow> real \<Rightarrow> real \<Rightarrow> bool" where
  "contains this px py \<longleftrightarrow>
     hb_x this + hb_width this > px \<and>
     hb_x this \<le> px \<and>
     hb_y this + hb_height this > py \<and>
     hb_y this \<le> py"

text \<open>
  The source evaluates the two sums in double precision, where a sum can lose its
  smaller summand (\<^verbatim>\<open>1e16 + 1 == 1e16\<close>).  \<open>contains_fl\<close> is the same test with the
  rounding of a sum as a parameter: \<open>fl\<close> maps the exact sum to the number the machine
  returns for it.  The comparisons are exact in any case, and \<open>contains\<close> is the test
  under exact arithmetic, \<open>fl\<close> the identity.  (A sum that overflows to an infinity
  is not a number of the embedding.)
\<close>

definition contains_fl :: "(real \<Rightarrow> real) \<Rightarrow> Hitbox \<Rightarrow> real \<Rightarrow> real \<Rightarrow> bool" where
  "contains_fl fl this px py \<longleftrightarrow>
     fl (hb_x this + hb_width this) > px \<and>
     hb_x this \<le> px \<and>
     fl (hb_y this + hb_height this) > py \<and>
     hb_y this \<le> py"

subsection \<open>Sprite\<close>

text \<open>
  \<^verbatim>\<open>class Sprite extends Hitbox\<close> with the private fields \<^verbatim>\<open>index\<close>,
  \<^verbatim>\<open>remainingTime\<close>, \<^verbatim>\<open>_frames\<close>, \<^verbatim>\<open>_finished\<close>, \<^verbatim>\<open>_framesPerSecond\<close> and
  the public \<^verbatim>\<open>loop\<close>.  The index only ever is \<open>0\<close> or a successor, hence a
  natural number.  The spritesheet and the source offsets \<^verbatim>\<open>sxs\<close>, \<^verbatim>\<open>sys\<close> are
  read by \<^verbatim>\<open>draw\<close> only, which paints the canvas and leaves the sprite as it is.
\<close>

record Sprite = Hitbox +
  index :: nat
  remainingTime :: real
  frames :: "real list"
  finished :: bool
  framesPerSecond :: real
  loop :: bool

text \<open>
  \<^verbatim>\<open>set frames(value) {
      if (value.length != this._frames.length || value.some((v, i) => v != this._frames[i]))
          this.index = 0
      this._frames = value }\<close>
\<close>

definition set_frames :: "real list \<Rightarrow> Sprite \<Rightarrow> Sprite" where
  "set_frames val this =
     (let this1 =
        (if length val \<noteq> length (frames this) \<or>
            js_some (\<lambda>v i. Some v \<noteq> js_nth (frames this) i) val
         then this\<lparr>index := 0\<rparr> else this)
      in this1\<lparr>frames := val\<rparr>)"

text \<open>
  \<^verbatim>\<open>set framesPerSecond(value) { this._framesPerSecond = value; this.remainingTime = 1000 / value }\<close>
\<close>


text \<open>
  \<^verbatim>\<open>update() {
      this.remainingTime -= deltaTime;
      if (this.remainingTime < 0) {
          if (this.index >= this._frames.length - 1) {
              if (this.loop) { this.index = 0 } else { this._finished = true }
          } else { this.index++ }
          this.remainingTime += 1000 / this._framesPerSecond;
      }
      this.draw() }\<close>
  The global \<^verbatim>\<open>deltaTime\<close> is the first argument.  The comparison with
  \<^verbatim>\<open>length - 1\<close> is made on integers, since the length may be \<open>0\<close>.
\<close>

definition update :: "real \<Rightarrow> Sprite \<Rightarrow> Sprite" where
  "update deltaTime this =
     (let this1 = this\<lparr>remainingTime := remainingTime this - deltaTime\<rparr> in
      if remainingTime this1 < 0 then
        (let this2 =
           (if int (index this1) \<ge> int (length (frames this1)) - 1 then
              (if loop this1 then this1\<lparr>index := 0\<rparr> else this1\<lparr>finished := True\<rparr>)
            else this1\<lparr>index := index this1 + 1\<rparr>)
         in this2\<lparr>remainingTime := remainingTime this2 + 1000 / framesPerSecond this2\<rparr>)
      else this1)"

text \<open>
  The same method with the rounding of its arithmetic as a parameter: the source
  rounds the difference \<^verbatim>\<open>remainingTime - deltaTime\<close>, the quotient
  \<^verbatim>\<open>1000 / _framesPerSecond\<close> and the sum, and \<open>fl\<close> maps each exact result to the
  number the machine returns; the comparisons are exact.  With \<open>fl\<close> the identity
  this is \<open>update\<close>, with \<open>fl = binary64\<close> the method as it runs (while no
  result overflows).
\<close>

definition update_fl :: "(real \<Rightarrow> real) \<Rightarrow> real \<Rightarrow> Sprite \<Rightarrow> Sprite" where
  "update_fl fl deltaTime this =
     (let this1 = this\<lparr>remainingTime := fl (remainingTime this - deltaTime)\<rparr> in
      if remainingTime this1 < 0 then
        (let this2 =
           (if int (index this1) \<ge> int (length (frames this1)) - 1 then
              (if loop this1 then this1\<lparr>index := 0\<rparr> else this1\<lparr>finished := True\<rparr>)
            else this1\<lparr>index := index this1 + 1\<rparr>)
         in this2\<lparr>remainingTime :=
                   fl (remainingTime this2 + fl (1000 / framesPerSecond this2))\<rparr>)
      else this1)"

text \<open>The sprite after \<open>n\<close> calls of \<^verbatim>\<open>update\<close>, the \<open>i\<close>-th with elapsed time \<open>dts i\<close>.\<close>

fun drive :: "(real \<Rightarrow> real) \<Rightarrow> (nat \<Rightarrow> real) \<Rightarrow> Sprite \<Rightarrow> nat \<Rightarrow> Sprite" where
  "drive fl dts s 0 = s"
| "drive fl dts s (Suc n) = update_fl fl (dts n) (drive fl dts s n)"



text \<open>
  A sprite as the constructor leaves it, for a sheet of \<open>rows * columns\<close> frames:
  \<^verbatim>\<open>super(0, 0, 0, 0); this._frames = array(rows * columns, i => i); this.framesPerSecond = 12;
  this.width = this.frameWidth = this.spritesheet.width / this.columns;
  this.height = this.frameHeight = this.spritesheet.height / this.rows\<close>
\<close>

definition Sprite_new :: "real \<Rightarrow> real \<Rightarrow> nat \<Rightarrow> nat \<Rightarrow> Sprite" where
  "Sprite_new sheetWidth sheetHeight rows columns =
     \<lparr>hb_x = 0, hb_y = 0,
      hb_width = sheetWidth / real columns, hb_height = sheetHeight / real rows,
      index = 0, remainingTime = 1000 / 12,
      frames = map real [0 ..< rows * columns],
      finished = False, framesPerSecond = 12, loop = True\<rparr>"

subsection \<open>The canvas\<close>

text \<open>
  The drawing context belongs to the browser, not to the repository.  The canvas is
  idealised as the paint at each point of the plane (\<open>None\<close>: transparent), and the
  three rectangle operations the library forwards to change exactly the points of
  their rectangle; a negative width or height extends the rectangle to the left or
  upwards.  An image gives the paint at each point of the unit square.  What the
  platform does with text (its metrics and the ink it lays down) is a parameter.
\<close>

type_synonym point = "real \<times> real"
type_synonym paint = "string option"
type_synonym canvas = "point \<Rightarrow> paint"
type_synonym image = "point \<Rightarrow> paint"









subsection \<open>Cell\<close>

text \<open>
  \<^verbatim>\<open>class Cell\<close>: the read-only \<^verbatim>\<open>row\<close>, \<^verbatim>\<open>column\<close>, \<^verbatim>\<open>x\<close>, \<^verbatim>\<open>y\<close>,
  \<^verbatim>\<open>width\<close>, \<^verbatim>\<open>height\<close>, and the private \<^verbatim>\<open>_color\<close>, \<^verbatim>\<open>_image\<close>,
  \<^verbatim>\<open>_text\<close>, \<^verbatim>\<open>_custom\<close>, \<^verbatim>\<open>fontSize\<close>, \<^verbatim>\<open>textColor\<close>.  The custom callback
  receives the cell and paints on the canvas; it is handed the cell's other fields.
\<close>

record CellData =
  cell_row :: nat
  cell_column :: nat
  cell_x :: real
  cell_y :: real
  cell_width :: real
  cell_height :: real
  cell_color :: "string option"
  cell_image :: "image option"
  cell_text :: "string option"
  fontSize :: real
  textColor :: string

record Cell = CellData +
  cell_custom :: "(CellData \<Rightarrow> canvas \<Rightarrow> canvas) option"

text \<open>
  \<^verbatim>\<open>constructor(row, column, x, y, width, height, textColor) { this.fontSize = Math.min(height, width) }\<close>
\<close>

definition Cell_new :: "nat \<Rightarrow> nat \<Rightarrow> real \<Rightarrow> real \<Rightarrow> real \<Rightarrow> real \<Rightarrow> string \<Rightarrow> Cell" where
  "Cell_new row column x y width height textCol =
     \<lparr>cell_row = row, cell_column = column, cell_x = x, cell_y = y,
      cell_width = width, cell_height = height,
      cell_color = None, cell_image = None, cell_text = None,
      fontSize = min height width, textColor = textCol, cell_custom = None\<rparr>"








subsection \<open>Grid\<close>

text \<open>
  \<^verbatim>\<open>class Grid\<close> with \<^verbatim>\<open>rows\<close>, \<^verbatim>\<open>columns\<close>, \<^verbatim>\<open>x\<close>, \<^verbatim>\<open>y\<close>, \<^verbatim>\<open>width\<close>,
  \<^verbatim>\<open>height\<close>, \<^verbatim>\<open>color\<close> and the private \<^verbatim>\<open>activatable\<close>, \<^verbatim>\<open>_activeCell\<close>,
  \<^verbatim>\<open>cells\<close>, \<^verbatim>\<open>cellWidth\<close>, \<^verbatim>\<open>cellHeight\<close>.
\<close>

record Grid =
  rows :: nat
  columns :: nat
  grid_x :: real
  grid_y :: real
  grid_width :: real
  grid_height :: real
  grid_color :: string
  activatable :: bool
  activeCell :: "Cell option"
  cells :: "Cell list list"
  cellWidth :: real
  cellHeight :: real

text \<open>
  \<^verbatim>\<open>constructor(rows, columns, x, y, width, height, color) {
      this.cellWidth = (width - columns - 1) / columns;
      this.cellHeight = (height - rows - 1) / rows;
      for (let i = 0; i < rows; i++) {
          this.cells[i] = [];
          for (let j = 0; j < columns; j++) {
              this.cells[i][j] = new Cell(i, j, x + j * (this.cellWidth + 1) + 1,
                  y + i * (this.cellHeight + 1) + 1, this.cellWidth, this.cellHeight, color) } }
      this._activeCell = this.cells[0][0];
      this.draw() }\<close>
  Without rows \<^verbatim>\<open>this.cells[0]\<close> is \<^verbatim>\<open>undefined\<close> and reading its element \<open>0\<close>
  throws a TypeError; without columns the active cell is \<^verbatim>\<open>undefined\<close>, there
  is no cell, and the cell width (not a finite number in the source) is never used to
  find one.  The final \<^verbatim>\<open>draw\<close> paints the canvas only.  The numbers of rows
  and columns are whole numbers here; on a fractional number the loops of the source
  run once more than it has whole units.
\<close>

definition Grid_new ::
  "nat \<Rightarrow> nat \<Rightarrow> real \<Rightarrow> real \<Rightarrow> real \<Rightarrow> real \<Rightarrow> string \<Rightarrow> js_error + Grid" where
  "Grid_new rws cols x y width height color =
     (let cw = (width - real cols - 1) / real cols;
          ch = (height - real rws - 1) / real rws;
          cs = map (\<lambda>i. map (\<lambda>j. Cell_new i j
                                  (x + real j * (cw + 1) + 1)
                                  (y + real i * (ch + 1) + 1)
                                  cw ch color) [0 ..< cols]) [0 ..< rws]
      in case js_nth cs 0 of
           None \<Rightarrow> Inl TypeError
         | Some row0 \<Rightarrow>
             Inr \<lparr>rows = rws, columns = cols, grid_x = x, grid_y = y,
                  grid_width = width, grid_height = height, grid_color = color,
                  activatable = True, activeCell = js_nth row0 0,
                  cells = cs, cellWidth = cw, cellHeight = ch\<rparr>)"

text \<open>
  The constructor with the rounding \<open>fl\<close> of each of its arithmetic operations, in the
  order in which the source applies them: \<^verbatim>\<open>(width - columns - 1) / columns\<close> and
  \<^verbatim>\<open>x + j * (this.cellWidth + 1) + 1\<close>.
\<close>

definition Grid_new_fl ::
  "(real \<Rightarrow> real) \<Rightarrow> nat \<Rightarrow> nat \<Rightarrow> real \<Rightarrow> real \<Rightarrow> real \<Rightarrow> real \<Rightarrow> string \<Rightarrow> js_error + Grid" where
  "Grid_new_fl fl rws cols x y width height color =
     (let cw = fl (fl (fl (width - real cols) - 1) / real cols);
          ch = fl (fl (fl (height - real rws) - 1) / real rws);
          cs = map (\<lambda>i. map (\<lambda>j. Cell_new i j
                                  (fl (fl (x + fl (real j * fl (cw + 1))) + 1))
                                  (fl (fl (y + fl (real i * fl (ch + 1))) + 1))
                                  cw ch color) [0 ..< cols]) [0 ..< rws]
      in case js_nth cs 0 of
           None \<Rightarrow> Inl TypeError
         | Some row0 \<Rightarrow>
             Inr \<lparr>rows = rws, columns = cols, grid_x = x, grid_y = y,
                  grid_width = width, grid_height = height, grid_color = color,
                  activatable = True, activeCell = js_nth row0 0,
                  cells = cs, cellWidth = cw, cellHeight = ch\<rparr>)"

text \<open>
  \<^verbatim>\<open>cellFromPoint(x, y) {
      const column = Math.floor((x - this.x) / (this.cellWidth + 1));
      const row = Math.floor((y - this.y) / (this.cellHeight + 1));
      return this.cells[row]?.[column] }\<close>
\<close>

definition cellFromPoint :: "Grid \<Rightarrow> real \<Rightarrow> real \<Rightarrow> Cell option" where
  "cellFromPoint this px py =
     (let column = js_floor_div (px - grid_x this) (cellWidth this + 1);
          row = js_floor_div (py - grid_y this) (cellHeight this + 1)
      in case js_index (cells this) row of
           None \<Rightarrow> None
         | Some r \<Rightarrow> js_index r column)"

text \<open>The hit test with the rounding \<open>fl\<close> of the two differences, the two sums and the two quotients.\<close>

definition cellFromPoint_fl :: "(real \<Rightarrow> real) \<Rightarrow> Grid \<Rightarrow> real \<Rightarrow> real \<Rightarrow> Cell option" where
  "cellFromPoint_fl fl this px py =
     (let column = js_floor_div_fl fl (fl (px - grid_x this)) (fl (cellWidth this + 1));
          row = js_floor_div_fl fl (fl (py - grid_y this)) (fl (cellHeight this + 1))
      in case js_index (cells this) row of
           None \<Rightarrow> None
         | Some r \<Rightarrow> js_index r column)"

subsection \<open>Pointer input and activation\<close>

text \<open>
  What the getters read: \<^verbatim>\<open>_touchable\<close>, the positions in \<^verbatim>\<open>_touches\<close>,
  \<^verbatim>\<open>_buttons\<close> (each entry \<^verbatim>\<open>true\<close>, \<^verbatim>\<open>false\<close>, or \<^verbatim>\<open>null\<close> or absent),
  \<^verbatim>\<open>_mouseX\<close> and \<^verbatim>\<open>_mouseY\<close>.
\<close>

record Input =
  touchable :: bool
  touches :: "point list"
  buttons :: "bool option list"
  mouseX :: real
  mouseY :: real

text \<open>\<^verbatim>\<open>get touched() { return _touchable && _touches.length > 0 }\<close>\<close>

definition touched :: "Input \<Rightarrow> bool" where
  "touched inp \<longleftrightarrow> touchable inp \<and> length (touches inp) > 0"

text \<open>\<^verbatim>\<open>get x() { return _touches.length > 0 ? _touches[0].x : -1 }\<close>, and \<^verbatim>\<open>y\<close> alike.\<close>

definition touch_x :: "Input \<Rightarrow> real" where
  "touch_x inp = (if length (touches inp) > 0 then fst (hd (touches inp)) else - 1)"

definition touch_y :: "Input \<Rightarrow> real" where
  "touch_y inp = (if length (touches inp) > 0 then snd (hd (touches inp)) else - 1)"

text \<open>\<^verbatim>\<open>mouse.buttons.some(value => value)\<close>\<close>

definition buttons_some :: "Input \<Rightarrow> bool" where
  "buttons_some inp \<longleftrightarrow> list_ex (\<lambda>v. v = Some True) (buttons inp)"

text \<open>A touch or a mouse button is down, as both getters test it.\<close>

definition pointerDown :: "Input \<Rightarrow> bool" where
  "pointerDown inp \<longleftrightarrow> touched inp \<or> buttons_some inp"

text \<open>
  \<^verbatim>\<open>get activated() {
      if (touchscreen.touched || mouse.buttons.some(value => value)) {
          if (this.activatable) {
              this.activatable = false;
              const x = touchscreen.touched ? touchscreen.x : mouse.x;
              const y = touchscreen.touched ? touchscreen.y : mouse.y;
              const cell = this.cellFromPoint(x, y);
              if (cell) { this._activeCell = cell; return true } }
          return false }
      this.activatable = true;
      return false }\<close>
\<close>

definition Grid_activated :: "Input \<Rightarrow> Grid \<Rightarrow> bool \<times> Grid" where
  "Grid_activated inp this =
     (if touched inp \<or> buttons_some inp then
        (if activatable this then
           (let this1 = this\<lparr>activatable := False\<rparr>;
                x = (if touched inp then touch_x inp else mouseX inp);
                y = (if touched inp then touch_y inp else mouseY inp)
            in case cellFromPoint this1 x y of
                 Some cell \<Rightarrow> (True, this1\<lparr>activeCell := Some cell\<rparr>)
               | None \<Rightarrow> (False, this1))
         else (False, this))
      else (False, this\<lparr>activatable := True\<rparr>))"

text \<open>
  \<^verbatim>\<open>class Button\<close>: \<^verbatim>\<open>width = width ?? text.length * fontSize\<close>,
  \<^verbatim>\<open>height = height ?? fontSize * 2\<close>, \<^verbatim>\<open>this.hb = new Hitbox(x, y, width, height)\<close>.
\<close>

record Button =
  btn_text :: string
  hb :: Hitbox
  btn_activatable :: bool

definition Button_new ::
  "string \<Rightarrow> real \<Rightarrow> real \<Rightarrow> real option \<Rightarrow> real option \<Rightarrow> real \<Rightarrow> Button" where
  "Button_new txt x y width height fontSz =
     \<lparr>btn_text = txt,
      hb = \<lparr>hb_x = x, hb_y = y,
            hb_width = (case width of Some w \<Rightarrow> w | None \<Rightarrow> real (length txt) * fontSz),
            hb_height = (case height of Some h \<Rightarrow> h | None \<Rightarrow> fontSz * 2)\<rparr>,
      btn_activatable = True\<rparr>"

text \<open>
  \<^verbatim>\<open>get activated() {
      if (touchscreen.touched || mouse.buttons.some(value => value)) {
          if (this.activatable) {
              this.activatable = false;
              const x = ...; const y = ...;
              return this.hb.contains(x, y) }
          return false }
      this.activatable = true;
      return false }\<close>
\<close>

definition Button_activated :: "Input \<Rightarrow> Button \<Rightarrow> bool \<times> Button" where
  "Button_activated inp this =
     (if touched inp \<or> buttons_some inp then
        (if btn_activatable this then
           (let this1 = this\<lparr>btn_activatable := False\<rparr>;
                x = (if touched inp then touch_x inp else mouseX inp);
                y = (if touched inp then touch_y inp else mouseY inp)
            in (contains (hb this1) x y, this1))
         else (False, this))
      else (False, this\<lparr>btn_activatable := True\<rparr>))"

text \<open>Successive reads of the getter, one for each input state, with their results.\<close>

fun Grid_reads :: "Input list \<Rightarrow> Grid \<Rightarrow> bool list \<times> Grid" where
  "Grid_reads [] g = ([], g)"
| "Grid_reads (inp # inps) g =
     (case Grid_activated inp g of (r, g1) \<Rightarrow>
        (case Grid_reads inps g1 of (rs, g2) \<Rightarrow> (r # rs, g2)))"

fun Button_reads :: "Input list \<Rightarrow> Button \<Rightarrow> bool list \<times> Button" where
  "Button_reads [] b = ([], b)"
| "Button_reads (inp # inps) b =
     (case Button_activated inp b of (r, b1) \<Rightarrow>
        (case Button_reads inps b1 of (rs, b2) \<Rightarrow> (r # rs, b2)))"

subsection \<open>Checking the output against the expected output\<close>

text \<open>
  The load listener, from the normalised \<^verbatim>\<open>output\<close> and the decoded \<^verbatim>\<open>oValue\<close> on
  (a string is the list of its code units):
  \<^verbatim>\<open>if (output == oValue) { respElt.innerHTML = `<span class="correct">${output}</span>` }
  else {
      let offset = 0;
      while (output[offset] == oValue[offset]) { offset++ }
      const correct = output.slice(0, offset);
      respElt.innerHTML = `<span class="correct">${correct}</span>`;
      const incorrect = output.slice(offset) + " ".repeat(Math.max(0, oValue.length - output.length));
      respElt.innerHTML += `<span class="incorrect">${incorrect}</span>`;
      const correctElt = document.createElement("p"); _io.append(correctElt);
      correctElt.innerHTML += `<span class="correct">${oParam}</span>` }\<close>
  The loop compares \<^verbatim>\<open>undefined\<close> with \<^verbatim>\<open>undefined\<close> beyond both strings, so on
  equal strings it would not end: not returning is the value \<open>None\<close>.

  The strings are put into the markup as they are, without escaping, and what the
  browser makes of the markup is not the repository's: the outcome is kept as the
  markup written to each of the two elements, an assignment \<^verbatim>\<open>innerHTML = s\<close> or an
  extension \<^verbatim>\<open>innerHTML += s\<close>, in the order of the writes.
\<close>

partial_function (option) scan_offset :: "string \<Rightarrow> string \<Rightarrow> nat \<Rightarrow> nat option" where
  "scan_offset output oValue offset =
     (if js_nth output offset = js_nth oValue offset
      then scan_offset output oValue (offset + 1)
      else Some offset)"

text \<open>The template \<^verbatim>\<open>`<span class="cls">${s}</span>`\<close>.\<close>

definition span :: "string \<Rightarrow> string \<Rightarrow> string" where
  "span cls s = ''<span class='' @ [CHR 0x22] @ cls @ [CHR 0x22] @ ''>'' @ s @ ''</span>''"

datatype markup_write = Assign string | Extend string

record Response =
  respElt :: "markup_write list"
  correctElt :: "markup_write list option"

definition compare_output :: "string \<Rightarrow> string \<Rightarrow> string \<Rightarrow> Response option" where
  "compare_output output oValue oParam =
     (if output = oValue then
        Some \<lparr>respElt = [Assign (span ''correct'' output)], correctElt = None\<rparr>
      else
        (case scan_offset output oValue 0 of
           None \<Rightarrow> None
         | Some offset \<Rightarrow>
             (let correct = take offset output;
                  incorrect = drop offset output @
                    replicate (nat (max 0 (int (length oValue) - int (length output)))) CHR '' ''
              in Some \<lparr>respElt = [Assign (span ''correct'' correct),
                                  Extend (span ''incorrect'' incorrect)],
                       correctElt = Some [Extend (span ''correct'' oParam)]\<rparr>)))"

subsection \<open>The dev server\<close>












subsection \<open>Concrete inputs\<close>

text \<open>A one-row sheet of three frames, and the same sprite after \<^verbatim>\<open>sprite.frames = []\<close>.\<close>

definition sprite3 :: Sprite where
  "sprite3 = Sprite_new 300 100 1 3"




definition grid23 :: Grid where
  "grid23 = \<lparr>rows = 2, columns = 3, grid_x = 10, grid_y = 20,
              grid_width = 31, grid_height = 21, grid_color = ''black'',
              activatable = True, activeCell = Some (Cell_new 0 0 11 21 9 9 ''black''),
              cells = [[Cell_new 0 0 11 21 9 9 ''black'', Cell_new 0 1 21 21 9 9 ''black'',
                        Cell_new 0 2 31 21 9 9 ''black''],
                       [Cell_new 1 0 11 31 9 9 ''black'', Cell_new 1 1 21 31 9 9 ''black'',
                        Cell_new 1 2 31 31 9 9 ''black'']],
              cellWidth = 9, cellHeight = 9\<rparr>"

text \<open>The left mouse button held at \<open>(25, 35)\<close>, and released.\<close>

definition inputDown :: Input where
  "inputDown = \<lparr>touchable = True, touches = [], buttons = [Some True],
                 mouseX = 25, mouseY = 35\<rparr>"

definition inputUp :: Input where
  "inputUp = \<lparr>touchable = True, touches = [], buttons = [None],
               mouseX = 25, mouseY = 35\<rparr>"

definition buttonOK :: Button where
  "buttonOK = Button_new ''OK'' 20 30 None None 16"






section \<open>Properties\<close>

subsection \<open>The frames setter, the three-frame sprite and the grid of two rows\<close>

lemma js_some_iff:
  "js_some p xs \<longleftrightarrow> (\<exists>i<length xs. p (xs ! i) i)"
  by (auto simp: js_some_def list_ex_iff in_set_enumerate_eq)

lemma set_frames_eq:
  "set_frames v s = s\<lparr>index := (if v = frames s then index s else 0), frames := v\<rparr>"
proof (cases "v = frames s")
  case True
  then show ?thesis
    by (simp add: set_frames_def js_some_iff js_nth_def)
next
  case False
  then have "length v \<noteq> length (frames s) \<or> (\<exists>i<length v. v ! i \<noteq> frames s ! i)"
    by (auto simp: list_eq_iff_nth_eq)
  then have "length v \<noteq> length (frames s) \<or>
             js_some (\<lambda>w i. Some w \<noteq> js_nth (frames s) i) v"
    by (auto simp: js_some_iff js_nth_def)
  with False show ?thesis
    by (simp add: set_frames_def)
qed

lemma sprite3_simps:
  "index sprite3 = 0" "remainingTime sprite3 = 250 / 3" "frames sprite3 = [0, 1, 2]"
  "finished sprite3 = False" "framesPerSecond sprite3 = 12" "loop sprite3 = True"
  by (simp_all add: sprite3_def Sprite_new_def upt_conv_Cons)


subsection \<open>Double precision rounding\<close>

text \<open>
  Rounding leaves a whole number of magnitude up to \<open>2\<^sup>5\<^sup>3\<close> as it is, moves any
  number in the normal range by at most the \<open>2\<^sup>5\<^sup>3\<close>-th part of its magnitude, and does
  not change the floor of a quotient of two whole numbers of magnitude up to
  \<open>2\<^sup>3\<^sup>2\<close>.
\<close>

lemma round_half_even_int: "round_half_even (of_int k) = k"
  by (simp add: round_half_even_def)


lemma binary64_int:
  assumes "v \<in> \<int>" and "\<bar>v\<bar> \<le> 2 ^ 53"
  shows "binary64 v = v"
proof (cases "v = 0")
  case True
  then show ?thesis by (simp add: binary64_def)
next
  case False
  from assms(1) obtain z :: int where z: "v = of_int z" by (auto elim: Ints_cases)
  with False have "z \<noteq> 0" by simp
  then have one: "1 \<le> \<bar>v\<bar>" unfolding z by (simp flip: of_int_abs)
  define e where "e = \<lfloor>log 2 \<bar>v\<bar>\<rfloor>"
  have pos: "0 < \<bar>v\<bar>" using False by simp
  have "0 \<le> log 2 \<bar>v\<bar>" using one by simp
  then have e0: "0 \<le> e" unfolding e_def by simp
  have "log 2 \<bar>v\<bar> \<le> 53"
    using assms(2) pos by (simp add: log_le_iff)
  then have e53: "e \<le> 53" unfolding e_def by (simp add: floor_le_iff) 
  have lo: "2 powr of_int e \<le> \<bar>v\<bar>"
    using pos unfolding e_def by (simp flip: le_log_iff)
  define u where "u = (2::real) powr (of_int e - 52)"
  have upos: "0 < u" unfolding u_def by simp
  have "v / u \<in> \<int>"
  proof (cases "e \<le> 52")
    case True
    define n where "n = nat (52 - e)"
    have "of_int e - 52 = - real n"
      using True unfolding n_def by simp
    then have "u = 2 powr (- real n)"
      unfolding u_def by simp
    also have "\<dots> = 1 / 2 powr (real n)"
      by (simp add: powr_minus_divide)
    also have "\<dots> = 1 / 2 ^ n"
      by (simp add: powr_realpow)
    finally have "u = 1 / 2 ^ n" .
    then have "v / u = of_int (z * 2 ^ n)"
      unfolding z by simp
    then show ?thesis by (metis Ints_of_int)
  next
    case False
    with e53 have e: "e = 53" by simp
    have "2 ^ 53 \<le> \<bar>v\<bar>" using lo unfolding e by simp
    with assms(2) have "\<bar>v\<bar> = 2 ^ 53" by simp
    then have "v = 2 ^ 53 \<or> v = - (2 ^ 53)" by (auto simp: abs_if split: if_splits)
    moreover have "u = 2" unfolding u_def e by simp
    ultimately have "v / u = of_int (2 ^ 52) \<or> v / u = of_int (- (2 ^ 52))" by auto
    then show ?thesis by (metis Ints_of_int)
  qed
  then obtain k :: int where k: "v / u = of_int k" by (auto elim: Ints_cases)
  have m: "max (- 1022) \<lfloor>log 2 \<bar>v\<bar>\<rfloor> = e"
    using e0 unfolding e_def by simp
  have "binary64 v = of_int (round_half_even (v / u)) * u"
    unfolding binary64_def Let_def m u_def using False by simp
  also have "\<dots> = of_int k * u" unfolding k round_half_even_int ..
  also have "\<dots> = v" using k upos by (simp add: field_simps)
  finally show ?thesis .
qed



subsection \<open>Hitbox intersection\<close>

text \<open>
  C4.  For every pair of hitboxes \<open>a\<close> and \<open>b\<close>, \<open>a.intersects(b)\<close> equals
  \<open>b.intersects(a)\<close>; and two hitboxes one of whose edges exactly touches the facing
  edge of the other (on any of the four sides) do not intersect, the four comparisons
  being strict.
\<close>

theorem intersects_symmetric_strict:
  "intersects a b = intersects b a \<and>
   (hb_x a + hb_width a = hb_x b \<or> hb_x a = hb_x b + hb_width b \<or>
    hb_y a + hb_height a = hb_y b \<or> hb_y a = hb_y b + hb_height b
      \<longrightarrow> \<not> intersects a b)"
  by (auto simp: intersects_def)

theorem intersects_symmetric_strict_witness:
  "intersects \<lparr>hb_x = 0, hb_y = 0, hb_width = 10, hb_height = 10\<rparr>
              \<lparr>hb_x = 10, hb_y = 0, hb_width = 5, hb_height = 10\<rparr>
     = intersects \<lparr>hb_x = 10, hb_y = 0, hb_width = 5, hb_height = 10\<rparr>
                  \<lparr>hb_x = 0, hb_y = 0, hb_width = 10, hb_height = 10\<rparr>
   \<and> hb_x \<lparr>hb_x = 0, hb_y = 0, hb_width = 10, hb_height = 10\<rparr>
       + hb_width \<lparr>hb_x = 0, hb_y = 0, hb_width = 10, hb_height = 10\<rparr>
       = hb_x \<lparr>hb_x = 10, hb_y = 0, hb_width = 5, hb_height = 10\<rparr>
   \<and> \<not> intersects \<lparr>hb_x = 0, hb_y = 0, hb_width = 10, hb_height = 10\<rparr>
                    \<lparr>hb_x = 10, hb_y = 0, hb_width = 5, hb_height = 10\<rparr>"
  using intersects_symmetric_strict
    [of "\<lparr>hb_x = 0, hb_y = 0, hb_width = 10, hb_height = 10\<rparr>"
        "\<lparr>hb_x = 10, hb_y = 0, hb_width = 5, hb_height = 10\<rparr>"]
  by auto

subsection \<open>Hitbox containment\<close>

lemma contains_fl_exact: "contains_fl (\<lambda>v. v) h px py = contains h px py"
  by (simp add: contains_fl_def contains_def)

lemma binary64_loses_one: "binary64 (10 ^ 16 + 1) = 10 ^ 16"
proof -
  have pos: "(0::real) < 10 ^ 16 + 1" by simp
  have "53 \<le> log 2 (10 ^ 16 + 1 :: real)"
    using pos by (simp add: le_log_iff)
  moreover have "log 2 (10 ^ 16 + 1 :: real) < 54"
    using pos by (simp add: log_less_iff)
  ultimately have "\<lfloor>log 2 (10 ^ 16 + 1 :: real)\<rfloor> = 53"
    by (simp add: floor_eq_iff)
  then have e: "\<lfloor>log 2 \<bar>10 ^ 16 + 1 :: real\<bar>\<rfloor> = 53"
    using pos by simp
  have u: "(2::real) powr (of_int (max (- 1022) 53) - 52) = 2"
    by simp
  have q: "(10 ^ 16 + 1) / 2 = (5 * 10 ^ 15 + 1 / 2 :: real)"
    by simp
  have fl: "\<lfloor>5 * 10 ^ 15 + 1 / 2 :: real\<rfloor> = 5 * 10 ^ 15"
    by (simp add: floor_eq_iff)
  have r: "round_half_even (5 * 10 ^ 15 + 1 / 2) = 5 * 10 ^ 15"
    unfolding round_half_even_def fl by (simp add: Let_def)
  have nz: "(10::real) ^ 16 + 1 \<noteq> 0" by simp
  show ?thesis
    unfolding binary64_def e Let_def u q r using nz by simp
qed

text \<open>
  C9, as stated, at the hitbox \<^verbatim>\<open>new Hitbox(0, 0, 0, 0)\<close> (the one every Sprite starts
  from): its top-left corner is not contained.
\<close>

theorem contains_empty_hitbox_counterexample:
  "\<not> contains \<lparr>hb_x = 0, hb_y = 0, hb_width = 0, hb_height = 0\<rparr> 0 0"
  by (simp add: contains_def)

text \<open>
  C9, amended.  For every hitbox \<open>h\<close>, and however the machine rounds the two sums,
  \<open>h.contains\<close> treats the rectangle as half-open: no point with \<open>x\<close> equal to the
  computed \<open>h.x + h.width\<close> (right edge) and no point with \<open>y\<close> equal to the computed
  \<open>h.y + h.height\<close> (bottom edge) is contained, in particular not the bottom-right
  corner; and when the computed sums exceed \<open>h.x\<close> and \<open>h.y\<close> (under exact arithmetic:
  when width and height are positive), the points of the left edge (\<open>x = h.x\<close>, \<open>y\<close>
  from \<open>h.y\<close> up to the computed bottom) and of the top edge (\<open>y = h.y\<close>, \<open>x\<close> from
  \<open>h.x\<close> up to the computed right) are contained, in particular the top-left corner.
\<close>

theorem contains_half_open:
  "(hb_x h < fl (hb_x h + hb_width h) \<and> hb_y h \<le> py \<and> py < fl (hb_y h + hb_height h)
      \<longrightarrow> contains_fl fl h (hb_x h) py) \<and>
   (hb_y h < fl (hb_y h + hb_height h) \<and> hb_x h \<le> px \<and> px < fl (hb_x h + hb_width h)
      \<longrightarrow> contains_fl fl h px (hb_y h)) \<and>
   \<not> contains_fl fl h (fl (hb_x h + hb_width h)) py \<and>
   \<not> contains_fl fl h px (fl (hb_y h + hb_height h)) \<and>
   (hb_x h < fl (hb_x h + hb_width h) \<and> hb_y h < fl (hb_y h + hb_height h)
      \<longrightarrow> contains_fl fl h (hb_x h) (hb_y h)) \<and>
   \<not> contains_fl fl h (fl (hb_x h + hb_width h)) (fl (hb_y h + hb_height h)) \<and>
   (contains_fl fl h (hb_x h) (hb_y h)
      \<longleftrightarrow> hb_x h < fl (hb_x h + hb_width h) \<and> hb_y h < fl (hb_y h + hb_height h)) \<and>
   (contains_fl (\<lambda>v. v) h (hb_x h) (hb_y h) \<longleftrightarrow> 0 < hb_width h \<and> 0 < hb_height h)"
  by (auto simp add: contains_fl_def)

text \<open>
  At \<^verbatim>\<open>new Hitbox(2, 3, 10, 20)\<close>, where exact and double precision arithmetic agree,
  and at \<^verbatim>\<open>new Hitbox(1e16, 0, 1, 1)\<close> in double precision, where the sum
  \<open>10\<^sup>1\<^sup>6 + 1\<close> is \<open>10\<^sup>1\<^sup>6\<close> again and the top-left corner is not contained.
\<close>

theorem contains_half_open_witness:
  "contains_fl (\<lambda>v. v) \<lparr>hb_x = 2, hb_y = 3, hb_width = 10, hb_height = 20\<rparr> 2 7 \<and>
   contains_fl (\<lambda>v. v) \<lparr>hb_x = 2, hb_y = 3, hb_width = 10, hb_height = 20\<rparr> 5 3 \<and>
   \<not> contains_fl (\<lambda>v. v) \<lparr>hb_x = 2, hb_y = 3, hb_width = 10, hb_height = 20\<rparr> 12 7 \<and>
   \<not> contains_fl (\<lambda>v. v) \<lparr>hb_x = 2, hb_y = 3, hb_width = 10, hb_height = 20\<rparr> 5 23 \<and>
   contains_fl (\<lambda>v. v) \<lparr>hb_x = 2, hb_y = 3, hb_width = 10, hb_height = 20\<rparr> 2 3 \<and>
   \<not> contains_fl (\<lambda>v. v) \<lparr>hb_x = 2, hb_y = 3, hb_width = 10, hb_height = 20\<rparr> 12 23 \<and>
   binary64 (10 ^ 16 + 1) = 10 ^ 16 \<and>
   \<not> contains_fl binary64
       \<lparr>hb_x = 10 ^ 16, hb_y = 0, hb_width = 1, hb_height = 1\<rparr> (10 ^ 16) 0"
proof -
  have big: "\<not> contains_fl binary64
       \<lparr>hb_x = 10 ^ 16, hb_y = 0, hb_width = 1, hb_height = 1\<rparr> (10 ^ 16) 0"
    using contains_half_open
      [of "\<lparr>hb_x = 10 ^ 16, hb_y = 0, hb_width = 1, hb_height = 1\<rparr>" binary64 0 0]
    unfolding Hitbox.simps binary64_loses_one
    by blast
  show ?thesis
    using contains_half_open
      [of "\<lparr>hb_x = 2, hb_y = 3, hb_width = 10, hb_height = 20\<rparr>" "\<lambda>v. v" 7 5]
      big binary64_loses_one
    by simp
qed

subsection \<open>Assigning the frames of a sprite\<close>

text \<open>
  C10.  Assigning to \<open>frames\<close> stores the new array; it resets the frame index to \<open>0\<close>
  when the new array differs from the current one in length or in some element, and
  preserves the frame index when the new array is element-wise identical to the
  current one.
\<close>

theorem set_frames_resets_index_iff_differs:
  "frames (set_frames v s) = v \<and>
   (length v \<noteq> length (frames s) \<or> (\<exists>i<length v. v ! i \<noteq> frames s ! i)
      \<longrightarrow> index (set_frames v s) = 0) \<and>
   (length v = length (frames s) \<and> (\<forall>i<length v. v ! i = frames s ! i)
      \<longrightarrow> index (set_frames v s) = index s)"
proof -
  have "v = frames s \<longleftrightarrow>
        length v = length (frames s) \<and> (\<forall>i<length v. v ! i = frames s ! i)"
    by (rule list_eq_iff_nth_eq)
  then show ?thesis
    by (auto simp: set_frames_eq)
qed

theorem set_frames_resets_index_iff_differs_witness:
  "index (sprite3\<lparr>index := 2\<rparr>) = 2 \<and>
   index (set_frames [0, 1, 2] (sprite3\<lparr>index := 2\<rparr>)) = 2 \<and>
   index (set_frames [0, 1] (sprite3\<lparr>index := 2\<rparr>)) = 0 \<and>
   index (set_frames [0, 5, 2] (sprite3\<lparr>index := 2\<rparr>)) = 0"
proof -
  let ?s = "sprite3\<lparr>index := 2\<rparr>"
  have same: "length [0, 1, 2 :: real] = length (frames ?s) \<and>
              (\<forall>i<length [0, 1, 2 :: real]. [0, 1, 2] ! i = frames ?s ! i)"
    by (simp add: sprite3_simps)
  have shorter: "length [0, 1 :: real] \<noteq> length (frames ?s)"
    by (simp add: sprite3_simps)
  have "(1::nat) < length [0, 5, 2 :: real] \<and> [0, 5, 2 :: real] ! 1 \<noteq> frames ?s ! 1"
    by (simp add: sprite3_simps)
  then have other: "\<exists>i<length [0, 5, 2 :: real]. [0, 5, 2] ! i \<noteq> frames ?s ! i"
    by blast
  show ?thesis
    using set_frames_resets_index_iff_differs [of "[0, 1, 2]" ?s] same
      set_frames_resets_index_iff_differs [of "[0, 1]" ?s] shorter
      set_frames_resets_index_iff_differs [of "[0, 5, 2]" ?s] other
    by simp
qed

subsection \<open>One update of a sprite\<close>





subsection \<open>A sprite driven by repeated updates\<close>

lemma update_fl_exact: "update_fl (\<lambda>v. v) dt s = update dt s"
  by (simp add: update_fl_def update_def)

lemma update_frames [simp]: "frames (update_fl fl dt s) = frames s"
  by (simp add: update_fl_def Let_def)

lemma update_loop [simp]: "loop (update_fl fl dt s) = loop s"
  by (simp add: update_fl_def Let_def)




lemma drive_frames [simp]: "frames (drive fl dts s n) = frames s"
  by (induction n) simp_all

lemma drive_loop [simp]: "loop (drive fl dts s n) = loop s"
  by (induction n) simp_all



























subsection \<open>Grid hit-testing\<close>

















lemma Grid_new_fl_exact: "Grid_new_fl (\<lambda>v. v) = Grid_new"
  by (intro ext) (simp add: Grid_new_fl_def Grid_new_def algebra_simps)

lemma cellFromPoint_fl_exact: "cellFromPoint_fl (\<lambda>v. v) = cellFromPoint"
  by (intro ext) (simp add: cellFromPoint_fl_def cellFromPoint_def js_floor_div_fl_def js_floor_div_def)


lemma whole_Ints: "whole v \<Longrightarrow> v \<in> \<int>"
  and whole_bound: "whole v \<Longrightarrow> \<bar>v\<bar> \<le> 2 ^ 20"
  by (simp_all add: whole_def)












subsection \<open>The activated edge trigger\<close>

lemma Grid_activated_disarmed:
  "pointerDown inp \<Longrightarrow> \<not> activatable g \<Longrightarrow> Grid_activated inp g = (False, g)"
  by (simp add: Grid_activated_def pointerDown_def)

lemma Grid_activated_disarms:
  "pointerDown inp \<Longrightarrow> \<not> activatable (snd (Grid_activated inp g))"
  by (simp add: Grid_activated_def pointerDown_def Let_def split: option.splits)

lemma Grid_activated_rearms:
  "\<not> pointerDown inp \<Longrightarrow> Grid_activated inp g = (False, g\<lparr>activatable := True\<rparr>)"
  by (simp add: Grid_activated_def pointerDown_def)

lemma Grid_reads_disarmed:
  "\<forall>inp\<in>set inps. pointerDown inp \<Longrightarrow> \<not> activatable g \<Longrightarrow>
   Grid_reads inps g = (replicate (length inps) False, g)"
  by (induction inps arbitrary: g) (simp_all add: Grid_activated_disarmed)

lemma Grid_reads_once:
  assumes "\<forall>inp\<in>set inps. pointerDown inp"
  shows "length (filter id (fst (Grid_reads inps g))) \<le> 1"
proof (cases inps)
  case Nil
  then show ?thesis by simp
next
  case (Cons inp rest)
  obtain r g1 where first: "Grid_activated inp g = (r, g1)"
    by (cases "Grid_activated inp g")
  have "pointerDown inp" and rest: "\<forall>i\<in>set rest. pointerDown i"
    using assms Cons by simp_all
  then have "\<not> activatable g1"
    using Grid_activated_disarms [of inp g] first by simp
  then have "Grid_reads rest g1 = (replicate (length rest) False, g1)"
    using rest by (intro Grid_reads_disarmed)
  with first Cons show ?thesis by simp
qed

lemma Button_activated_disarmed:
  "pointerDown inp \<Longrightarrow> \<not> btn_activatable b \<Longrightarrow> Button_activated inp b = (False, b)"
  by (simp add: Button_activated_def pointerDown_def)

lemma Button_activated_disarms:
  "pointerDown inp \<Longrightarrow> \<not> btn_activatable (snd (Button_activated inp b))"
  by (simp add: Button_activated_def pointerDown_def Let_def)

lemma Button_activated_rearms:
  "\<not> pointerDown inp \<Longrightarrow> Button_activated inp b = (False, b\<lparr>btn_activatable := True\<rparr>)"
  by (simp add: Button_activated_def pointerDown_def)

lemma Button_reads_disarmed:
  "\<forall>inp\<in>set inps. pointerDown inp \<Longrightarrow> \<not> btn_activatable b \<Longrightarrow>
   Button_reads inps b = (replicate (length inps) False, b)"
  by (induction inps arbitrary: b) (simp_all add: Button_activated_disarmed)

lemma Button_reads_once:
  assumes "\<forall>inp\<in>set inps. pointerDown inp"
  shows "length (filter id (fst (Button_reads inps b))) \<le> 1"
proof (cases inps)
  case Nil
  then show ?thesis by simp
next
  case (Cons inp rest)
  obtain r b1 where first: "Button_activated inp b = (r, b1)"
    by (cases "Button_activated inp b")
  have "pointerDown inp" and rest: "\<forall>i\<in>set rest. pointerDown i"
    using assms Cons by simp_all
  then have "\<not> btn_activatable b1"
    using Button_activated_disarms [of inp b] first by simp
  then have "Button_reads rest b1 = (replicate (length rest) False, b1)"
    using rest by (intro Button_reads_disarmed)
  with first Cons show ?thesis by simp
qed

text \<open>
  C5.  For every grid and every button: over reads of \<open>activated\<close> at all of which a
  touch or a mouse button is down, the getter returns true at most once; once it has
  been read with the pointer down, every later read with the pointer still down
  returns false; and a read at which neither a touch nor a mouse button is down
  returns false and re-arms the trigger.
\<close>

theorem activated_debounce:
  "((\<forall>inp\<in>set inps. pointerDown inp) \<longrightarrow>
      length (filter id (fst (Grid_reads inps g))) \<le> 1 \<and>
      length (filter id (fst (Button_reads inps b))) \<le> 1) \<and>
   (pointerDown inp0 \<and> (\<forall>inp\<in>set inps. pointerDown inp) \<longrightarrow>
      fst (Grid_reads inps (snd (Grid_activated inp0 g))) = replicate (length inps) False \<and>
      fst (Button_reads inps (snd (Button_activated inp0 b))) = replicate (length inps) False) \<and>
   (\<not> pointerDown inp0 \<longrightarrow>
      \<not> fst (Grid_activated inp0 g) \<and> activatable (snd (Grid_activated inp0 g)) \<and>
      \<not> fst (Button_activated inp0 b) \<and> btn_activatable (snd (Button_activated inp0 b)))"
proof (intro conjI impI)
  assume "\<forall>inp\<in>set inps. pointerDown inp"
  then show "length (filter id (fst (Grid_reads inps g))) \<le> 1"
    and "length (filter id (fst (Button_reads inps b))) \<le> 1"
    by (rule Grid_reads_once, rule Button_reads_once)
next
  assume down: "pointerDown inp0 \<and> (\<forall>inp\<in>set inps. pointerDown inp)"
  then have "\<not> activatable (snd (Grid_activated inp0 g))"
    by (simp add: Grid_activated_disarms)
  with down show "fst (Grid_reads inps (snd (Grid_activated inp0 g))) = replicate (length inps) False"
    by (simp add: Grid_reads_disarmed)
  from down have "\<not> btn_activatable (snd (Button_activated inp0 b))"
    by (simp add: Button_activated_disarms)
  with down show "fst (Button_reads inps (snd (Button_activated inp0 b))) = replicate (length inps) False"
    by (simp add: Button_reads_disarmed)
next
  assume up: "\<not> pointerDown inp0"
  then show "\<not> fst (Grid_activated inp0 g)" "activatable (snd (Grid_activated inp0 g))"
    "\<not> fst (Button_activated inp0 b)" "btn_activatable (snd (Button_activated inp0 b))"
    by (simp_all add: Grid_activated_rearms Button_activated_rearms)
qed

lemma input_simps:
  "pointerDown inputDown" "\<not> pointerDown inputUp"
  by (simp_all add: pointerDown_def touched_def buttons_some_def inputDown_def inputUp_def)

theorem activated_debounce_witness:
  "pointerDown inputDown \<and> \<not> pointerDown inputUp \<and>
   fst (Grid_activated inputDown grid23) \<and>
   fst (Button_activated inputDown buttonOK) \<and>
   length (filter id (fst (Grid_reads [inputDown, inputDown, inputDown] grid23))) \<le> 1 \<and>
   length (filter id (fst (Button_reads [inputDown, inputDown, inputDown] buttonOK))) \<le> 1 \<and>
   fst (Grid_reads [inputDown, inputDown] (snd (Grid_activated inputDown grid23))) = [False, False] \<and>
   fst (Button_reads [inputDown, inputDown] (snd (Button_activated inputDown buttonOK))) = [False, False] \<and>
   activatable (snd (Grid_activated inputUp (snd (Grid_activated inputDown grid23)))) \<and>
   btn_activatable (snd (Button_activated inputUp (snd (Button_activated inputDown buttonOK)))) \<and>
   fst (Grid_activated inputDown
          (snd (Grid_activated inputUp (snd (Grid_activated inputDown grid23)))))"
proof -
  have down3: "\<forall>inp\<in>set [inputDown, inputDown, inputDown]. pointerDown inp"
    and down2: "pointerDown inputDown \<and> (\<forall>inp\<in>set [inputDown, inputDown]. pointerDown inp)"
    by (simp_all add: input_simps)
  have gridHit: "fst (Grid_activated inputDown grid23)"
    by (simp add: Grid_activated_def inputDown_def touched_def buttons_some_def Let_def
          cellFromPoint_def grid23_def js_floor_div_def js_index_def)
  have buttonHit: "fst (Button_activated inputDown buttonOK)"
    by (simp add: Button_activated_def inputDown_def touched_def buttons_some_def Let_def
          buttonOK_def Button_new_def contains_def)
  have once: "length (filter id (fst (Grid_reads [inputDown, inputDown, inputDown] grid23))) \<le> 1 \<and>
      length (filter id (fst (Button_reads [inputDown, inputDown, inputDown] buttonOK))) \<le> 1"
    using activated_debounce [of "[inputDown, inputDown, inputDown]" grid23 buttonOK inputDown]
      down3 by blast
  have later: "fst (Grid_reads [inputDown, inputDown] (snd (Grid_activated inputDown grid23)))
        = replicate (length [inputDown, inputDown]) False \<and>
      fst (Button_reads [inputDown, inputDown] (snd (Button_activated inputDown buttonOK)))
        = replicate (length [inputDown, inputDown]) False"
    using activated_debounce [of "[inputDown, inputDown]" grid23 buttonOK inputDown]
      down2 by blast
  have rearm: "activatable (snd (Grid_activated inputUp (snd (Grid_activated inputDown grid23)))) \<and>
      btn_activatable (snd (Button_activated inputUp (snd (Button_activated inputDown buttonOK))))"
    using activated_debounce [of "[]" "snd (Grid_activated inputDown grid23)"
        "snd (Button_activated inputDown buttonOK)" inputUp]
      input_simps(2) by blast
  from later have later': "fst (Grid_reads [inputDown, inputDown] (snd (Grid_activated inputDown grid23)))
        = [False, False] \<and>
      fst (Button_reads [inputDown, inputDown] (snd (Button_activated inputDown buttonOK)))
        = [False, False]"
    by (simp add: numeral_2_eq_2)
  have again: "fst (Grid_activated inputDown
          (snd (Grid_activated inputUp (snd (Grid_activated inputDown grid23)))))"
    by (simp add: Grid_activated_def inputDown_def inputUp_def touched_def buttons_some_def
          Let_def cellFromPoint_def grid23_def js_floor_div_def js_index_def)
  from input_simps gridHit buttonHit once later' rearm again show ?thesis
    by blast
qed

subsection \<open>Redrawing a cell\<close>

text \<open>
  On whole numbers the inset of \<^verbatim>\<open>draw\<close>, \<^verbatim>\<open>this.x + 0.5\<close> and
  \<^verbatim>\<open>this.width - 1\<close>, is computed exactly in double precision.
\<close>

lemma binary64_whole_half:
  assumes "whole x"
  shows "binary64 (x + 1 / 2) = x + 1 / 2"
proof -
  define v where "v = x + 1 / 2"
  from assms obtain z :: int where z: "x = of_int z" and xb: "\<bar>x\<bar> \<le> 2 ^ 20"
    unfolding whole_def by (auto elim: Ints_cases)
  have v2: "v = of_int (2 * z + 1) / 2" unfolding v_def z by simp
  have "2 * z + 1 \<noteq> 0" by presburger
  then have "1 \<le> \<bar>2 * z + 1\<bar>" by simp
  then have "real_of_int 1 \<le> real_of_int \<bar>2 * z + 1\<bar>" by (simp only: of_int_le_iff)
  then have half: "1 / 2 \<le> \<bar>v\<bar>" unfolding v2 by simp
  then have nz: "v \<noteq> 0" by auto
  have pos: "0 < \<bar>v\<bar>" using nz by simp
  define e where "e = \<lfloor>log 2 \<bar>v\<bar>\<rfloor>"
  have "(2::real) powr (- 1) \<le> \<bar>v\<bar>" using half by (simp add: powr_minus_divide)
  then have "- 1 \<le> log 2 \<bar>v\<bar>" using pos by (simp add: le_log_iff)
  then have e1: "- 1 \<le> e" unfolding e_def by (simp add: le_floor_iff)
  have "\<bar>v\<bar> \<le> 2 ^ 21" using xb unfolding v_def by simp
  then have "log 2 \<bar>v\<bar> \<le> 21" using pos by (simp add: log_le_iff)
  then have e21: "e \<le> 21" unfolding e_def by (simp add: floor_le_iff)
  define u where "u = (2::real) powr (of_int e - 52)"
  have upos: "0 < u" unfolding u_def by simp
  define n where "n = nat (51 - e)"
  have "of_int e - 52 = - real (Suc n)"
    using e21 unfolding n_def by simp
  then have "u = 2 powr (- real (Suc n))"
    unfolding u_def by simp
  also have "\<dots> = 1 / 2 powr (real (Suc n))"
    by (rule powr_minus_divide)
  also have "\<dots> = 1 / 2 ^ Suc n"
    by (simp only: powr_realpow [OF zero_less_numeral])
  finally have u: "u = 1 / 2 ^ Suc n" .
  have k: "v / u = of_int ((2 * z + 1) * 2 ^ n)"
    unfolding u v2 by simp
  have m: "max (- 1022) \<lfloor>log 2 \<bar>v\<bar>\<rfloor> = e"
    using e1 unfolding e_def by simp
  have "binary64 v = of_int (round_half_even (v / u)) * u"
    unfolding binary64_def Let_def m u_def using nz by simp
  also have "\<dots> = of_int ((2 * z + 1) * 2 ^ n) * u"
    unfolding k round_half_even_int ..
  also have "\<dots> = v"
    using k upos by (simp add: field_simps)
  finally show ?thesis unfolding v_def .
qed

lemma binary64_whole_pred:
  assumes "whole w"
  shows "binary64 (w - 1) = w - 1"
proof -
  have w: "w \<in> \<int>" "\<bar>w\<bar> \<le> 2 ^ 20"
    using assms by (simp_all add: whole_def)
  have "w - 1 \<in> \<int>" using w(1) by simp
  moreover have "\<bar>w - 1\<bar> \<le> 2 ^ 53" using w(2) by simp
  ultimately show ?thesis by (rule binary64_int)
qed









subsection \<open>The output check\<close>

lemma js_nth_append_length:
  "js_nth (pre @ xs) (length pre) = (case xs of [] \<Rightarrow> None | x # _ \<Rightarrow> Some x)"
  by (cases xs) (simp_all add: js_nth_def)

lemma js_nth_length [simp]: "js_nth pre (length pre) = None"
  by (simp add: js_nth_def)

lemma scan_offset_common:
  "xs \<noteq> ys \<Longrightarrow>
   scan_offset (pre @ xs) (pre @ ys) (length pre) =
     Some (length pre + length (longest_common_prefix xs ys))"
proof (induction xs arbitrary: ys pre)
  case Nil
  then obtain y ys' where "ys = y # ys'" by (cases ys) auto
  then show ?case
    by (subst scan_offset.simps) (simp add: js_nth_append_length)
next
  case (Cons x xs)
  show ?case
  proof (cases ys)
    case Nil
    then show ?thesis
      by (subst scan_offset.simps) (simp add: js_nth_append_length)
  next
    case ys: (Cons y ys')
    show ?thesis
    proof (cases "x = y")
      case True
      with Cons.prems ys have ne: "xs \<noteq> ys'" by simp
      have "scan_offset (pre @ x # xs) (pre @ y # ys') (length pre) =
            scan_offset (pre @ x # xs) (pre @ y # ys') (length pre + 1)"
        using True by (subst scan_offset.simps) (simp add: js_nth_append_length)
      also have "\<dots> = scan_offset ((pre @ [x]) @ xs) ((pre @ [x]) @ ys') (length (pre @ [x]))"
        using True by simp
      also have "\<dots> = Some (length (pre @ [x]) + length (longest_common_prefix xs ys'))"
        using Cons.IH [OF ne] .
      finally show ?thesis
        using True ys by simp
    next
      case False
      then show ?thesis
        unfolding ys by (subst scan_offset.simps) (simp add: js_nth_append_length)
    qed
  qed
qed

lemma scan_offset_lcp:
  "output \<noteq> oValue \<Longrightarrow>
   scan_offset output oValue 0 = Some (length (longest_common_prefix output oValue))"
  using scan_offset_common [of "output" oValue "[]"] by simp

lemma take_lcp:
  "take (length (longest_common_prefix xs ys)) xs = longest_common_prefix xs ys"
  using longest_common_prefix_prefix1 [of xs ys]
  by (metis append_eq_conv_conj prefix_def)

lemma compare_output_differ:
  assumes ne: "output \<noteq> oValue"
  shows "compare_output output oValue oParam =
        Some \<lparr>respElt =
                [Assign (span ''correct'' (longest_common_prefix output oValue)),
                 Extend (span ''incorrect''
                   (drop (length (longest_common_prefix output oValue)) output @
                    replicate (length oValue - length output) CHR '' ''))],
              correctElt = Some [Extend (span ''correct'' oParam)]\<rparr>"
proof -
  have pad: "nat (max 0 (int (length oValue) - int (length output))) = length oValue - length output"
    by simp
  show ?thesis
    using ne unfolding compare_output_def scan_offset_lcp [OF ne] pad
    by (simp add: take_lcp)
qed

lemma span_inject: "span cls s = span cls t \<longleftrightarrow> s = t"
  by (simp add: span_def)

text \<open>
  C6, as stated, at the output \<^verbatim>\<open>abc\<close> and the expected output \<^verbatim>\<open>abcdef\<close>: the
  longest common prefix is the whole output and its remainder is empty, but what is
  marked as incorrect is three blanks, which are no part of the output.
\<close>

theorem compare_output_padding_counterexample:
  "''abc'' \<noteq> ''abcdef'' \<and>
   longest_common_prefix ''abc'' ''abcdef'' = ''abc'' \<and>
   drop (length ''abc'') ''abc'' = [] \<and>
   compare_output ''abc'' ''abcdef'' ''abcdef'' =
     Some \<lparr>respElt = [Assign (span ''correct'' ''abc''), Extend (span ''incorrect'' ''   '')],
           correctElt = Some [Extend (span ''correct'' ''abcdef'')]\<rparr> \<and>
   compare_output ''abc'' ''abcdef'' ''abcdef'' \<noteq>
     Some \<lparr>respElt = [Assign (span ''correct'' ''abc''),
                        Extend (span ''incorrect'' (drop (length ''abc'') ''abc''))],
           correctElt = Some [Extend (span ''correct'' ''abcdef'')]\<rparr>"
proof -
  have ne: "''abc'' \<noteq> ''abcdef''"
    by simp
  have lcp: "longest_common_prefix ''abc'' ''abcdef'' = ''abc''"
    by simp
  have pad: "replicate (length ''abcdef'' - length ''abc'') CHR '' '' = ''   ''"
    by (simp add: numeral_3_eq_3)
  show ?thesis
    using compare_output_differ [OF ne, of "''abcdef''"] unfolding lcp pad
    by (simp add: span_inject)
qed

text \<open>
  C6, amended.  For every actual output and expected output that are not equal, the
  comparison ends and writes to the response element a span of class \<^verbatim>\<open>correct\<close>
  that holds exactly the longest common prefix of the two strings (a prefix of both
  that every common prefix is a prefix of), followed by a span of class
  \<^verbatim>\<open>incorrect\<close> that holds the remainder of the actual output, padded with blanks up
  to the length of the expected output; when the two strings are equal it writes one
  span of class \<^verbatim>\<open>correct\<close> that holds the whole output.  The strings stand in the
  markup as they are, unescaped.
\<close>

theorem compare_output_marks_common_prefix:
  "(output \<noteq> oValue \<longrightarrow>
      compare_output output oValue oParam =
        Some \<lparr>respElt =
                [Assign (span ''correct'' (longest_common_prefix output oValue)),
                 Extend (span ''incorrect''
                   (drop (length (longest_common_prefix output oValue)) output @
                    replicate (length oValue - length output) CHR '' ''))],
              correctElt = Some [Extend (span ''correct'' oParam)]\<rparr> \<and>
      longest_common_prefix output oValue @
        drop (length (longest_common_prefix output oValue)) output = output) \<and>
   (output = oValue \<longrightarrow>
      compare_output output oValue oParam =
        Some \<lparr>respElt = [Assign (span ''correct'' output)], correctElt = None\<rparr>) \<and>
   prefix (longest_common_prefix output oValue) output \<and>
   prefix (longest_common_prefix output oValue) oValue \<and>
   (\<forall>ps. prefix ps output \<and> prefix ps oValue \<longrightarrow>
      prefix ps (longest_common_prefix output oValue))"
proof (intro conjI impI allI)
  assume ne: "output \<noteq> oValue"
  show "compare_output output oValue oParam =
        Some \<lparr>respElt =
                [Assign (span ''correct'' (longest_common_prefix output oValue)),
                 Extend (span ''incorrect''
                   (drop (length (longest_common_prefix output oValue)) output @
                    replicate (length oValue - length output) CHR '' ''))],
              correctElt = Some [Extend (span ''correct'' oParam)]\<rparr>"
    by (rule compare_output_differ [OF ne])
  show "longest_common_prefix output oValue @
        drop (length (longest_common_prefix output oValue)) output = output"
    using take_lcp [of "output" oValue] append_take_drop_id
      [of "length (longest_common_prefix output oValue)" "output"]
    by simp
next
  assume "output = oValue"
  then show "compare_output output oValue oParam =
        Some \<lparr>respElt = [Assign (span ''correct'' output)], correctElt = None\<rparr>"
    by (simp add: compare_output_def)
next
  show "prefix (longest_common_prefix output oValue) output"
    by (rule longest_common_prefix_prefix1)
  show "prefix (longest_common_prefix output oValue) oValue"
    by (rule longest_common_prefix_prefix2)
next
  fix ps
  assume "prefix ps output \<and> prefix ps oValue"
  then show "prefix ps (longest_common_prefix output oValue)"
    by (simp add: longest_common_prefix_max_prefix)
qed

text \<open>
  At the output \<^verbatim>\<open>a<b>x\<close> and the expected output \<^verbatim>\<open>a<b>def\<close> (both hold a
  tag, which goes into the markup as it is), and at two equal strings.
\<close>

theorem compare_output_marks_common_prefix_witness:
  "''a<b>x'' \<noteq> ''a<b>def'' \<and>
   compare_output ''a<b>x'' ''a<b>def'' ''a%3Cb%3Edef'' =
     Some \<lparr>respElt = [Assign (span ''correct'' ''a<b>''), Extend (span ''incorrect'' ''x  '')],
           correctElt = Some [Extend (span ''correct'' ''a%3Cb%3Edef'')]\<rparr> \<and>
   compare_output ''abc'' ''abc'' ''abc'' =
     Some \<lparr>respElt = [Assign (span ''correct'' ''abc'')], correctElt = None\<rparr> \<and>
   prefix ''a<'' ''a<b>x'' \<and> prefix ''a<'' ''a<b>def'' \<and>
   prefix ''a<'' (longest_common_prefix ''a<b>x'' ''a<b>def'')"
proof -
  have lcp: "longest_common_prefix ''a<b>x'' ''a<b>def'' = ''a<b>''"
    by simp
  have ab: "prefix ''a<'' ''a<b>x'' \<and> prefix ''a<'' ''a<b>def''"
    by simp
  have ne: "''a<b>x'' \<noteq> ''a<b>def''"
    by simp
  show ?thesis
    using compare_output_marks_common_prefix [of "''a<b>x''" "''a<b>def''" "''a%3Cb%3Edef''"]
      compare_output_marks_common_prefix [of "''abc''" "''abc''" "''abc''"]
      ab ne
    unfolding lcp
    by (simp add: numeral_2_eq_2)
qed

subsection \<open>Build errors in the dev server\<close>












end
